theory Spec2Isabelle
  imports Main "HOL-Library.AList"
begin

section \<open>Configuration values\<close>

text \<open>
  The gear's configuration is a JSON object read into a Python \<^verbatim>\<open>dict\<close>. Its values
  are strings, booleans, integers or \<^verbatim>\<open>None\<close>; floating-point numbers are left out
  of the model. A Python string is modelled as a \<^typ>\<open>string\<close>, one \<^typ>\<open>char\<close> per code
  point, so only code points below 256 are represented. A \<^verbatim>\<open>dict\<close> keeps its keys in
  insertion order and never holds a key twice: it is an association list whose keys
  are distinct.
\<close>

datatype pyval = PStr string | PBool bool | PInt int | PNone

datatype error = KeyError | TypeError | IndexError

type_synonym pydict = "(string \<times> pyval) list"

subsection \<open>\<^verbatim>\<open>str(v)\<close>\<close>

definition digit_char :: "nat \<Rightarrow> char" where
  "digit_char d = ''0123456789'' ! d"

fun str_nat :: "nat \<Rightarrow> string" where
  "str_nat n = (if n < 10 then [digit_char n] else str_nat (n div 10) @ [digit_char (n mod 10)])"

definition str_int :: "int \<Rightarrow> string" where
  "str_int i = (if i < 0 then CHR ''-'' # str_nat (nat (- i)) else str_nat (nat i))"

fun py_str :: "pyval \<Rightarrow> string" where
  "py_str (PStr s) = s"
| "py_str (PBool b) = (if b then ''True'' else ''False'')"
| "py_str (PInt i) = str_int i"
| "py_str PNone = ''None''"

subsection \<open>\<^verbatim>\<open>s.split()\<close>\<close>

text \<open>
  The whitespace of \<^verbatim>\<open>str.split()\<close> without a separator, among the code points below
  256: tab, line feed, vertical tab, form feed, carriage return, the four separators
  0x1C to 0x1F, space, next line (0x85) and no-break space (0xA0).
\<close>

definition is_space :: "char \<Rightarrow> bool" where
  "is_space c = (c \<in> set [CHR 0x09, CHR 0x0A, CHR 0x0B, CHR 0x0C, CHR 0x0D,
                          CHR 0x1C, CHR 0x1D, CHR 0x1E, CHR 0x1F, CHR 0x20,
                          CHR 0x85, CHR 0xA0])"

text \<open>
  \<open>split_from w s\<close> scans \<open>s\<close> with the piece \<open>w\<close> read so far: a run of whitespace
  ends the piece, and empty pieces are never produced.
\<close>

fun split_from :: "string \<Rightarrow> string \<Rightarrow> string list" where
  "split_from w [] = (if w = [] then [] else [w])"
| "split_from w (c # cs) =
     (if is_space c then (if w = [] then split_from [] cs else w # split_from [] cs)
      else split_from (w @ [c]) cs)"

definition py_split :: "string \<Rightarrow> string list" where
  "py_split s = split_from [] s"

section \<open>\<^verbatim>\<open>utils/args.py\<close>\<close>

text \<open>
  The three functions take the gear context and work on \<^verbatim>\<open>context.config\<close> and on two
  entries of \<^verbatim>\<open>context.gear_dict\<close>, which they mutate in place: the context is passed
  in and returned. An entry of \<^verbatim>\<open>gear_dict\<close> that is not there is \<open>None\<close>, and reading
  it raises \<^verbatim>\<open>KeyError\<close>. Each function returns the exception it raised, if any,
  with the context as the exception left it.
\<close>

record gear_context =
  config :: pydict
  command_line :: "string list option"
  param_list :: "pydict option"

subsection \<open>\<^verbatim>\<open>get_inputs_and_args\<close>\<close>

text \<open>
  The loop over \<^verbatim>\<open>config.keys()\<close> with the dictionary \<^verbatim>\<open>params\<close> built so far.
  \<^verbatim>\<open>params[key] = v\<close> is \<^const>\<open>AList.update\<close>: a new key goes to the end, a key already
  there keeps its place. A string is true when it is not empty.
\<close>

fun collect_params :: "pydict \<Rightarrow> pydict \<Rightarrow> pydict" where
  "collect_params params [] = params"
| "collect_params params ((key, val) # rest) =
     (if take 5 key = ''gear-'' then collect_params params rest
      else
        (case val of
           PStr s \<Rightarrow>
             (if s \<noteq> [] then collect_params (AList.update key val params) rest
              else collect_params params rest)
         | _ \<Rightarrow> collect_params (AList.update key val params) rest))"

definition get_inputs_and_args :: "gear_context \<Rightarrow> gear_context" where
  "get_inputs_and_args ctx = ctx\<lparr>param_list := Some (collect_params [] (config ctx))\<rparr>"

subsection \<open>\<^verbatim>\<open>validate\<close>\<close>

text \<open>
  \<^verbatim>\<open>v == 0\<close> in Python: an integer is compared by value, \<^verbatim>\<open>False == 0\<close> holds since
  \<^verbatim>\<open>bool\<close> is a subclass of \<^verbatim>\<open>int\<close>, and a string or \<^verbatim>\<open>None\<close> never equals 0.
\<close>

fun py_eq_0 :: "pyval \<Rightarrow> bool" where
  "py_eq_0 (PInt i) = (i = 0)"
| "py_eq_0 (PBool b) = (\<not> b)"
| "py_eq_0 (PStr s) = False"
| "py_eq_0 PNone = False"

text \<open>Lines 54 to 56 and 58 to 60, for one key.\<close>

definition del_if_0 :: "string \<Rightarrow> pydict \<Rightarrow> pydict" where
  "del_if_0 key params =
     (case map_of params key of
        None \<Rightarrow> params
      | Some v \<Rightarrow> (if py_eq_0 v then AList.delete key params else params))"

definition validate :: "gear_context \<Rightarrow> error option \<times> gear_context" where
  "validate ctx =
     (case param_list ctx of
        None \<Rightarrow> (Some KeyError, ctx)
      | Some params \<Rightarrow>
         (None, ctx\<lparr>param_list := Some (del_if_0 ''stop-idx'' (del_if_0 ''start-idx'' params))\<rparr>))"

subsection \<open>\<^verbatim>\<open>build_command\<close>\<close>

text \<open>Lines 78 to 103: the tokens one parameter appends to the command.\<close>

definition param_tokens :: "string \<Rightarrow> pyval \<Rightarrow> string list" where
  "param_tokens key val =
     (if length key = 1 then
        (if length (py_str val) \<noteq> 0 then [''-'' @ key, py_str val] else [''-'' @ key])
      else
        (case val of
           PBool b \<Rightarrow> (if b then [''--'' @ key] else [])
         | _ \<Rightarrow>
            (if length (py_str val) = 0 then [''--'' @ key]
             else if (case val of PStr s \<Rightarrow> length (py_split s) > 1 | _ \<Rightarrow> False)
               then (''--'' @ key) # (case val of PStr s \<Rightarrow> py_split s | _ \<Rightarrow> [])
             else [''--'' @ key @ ''='' @ py_str val])))"

text \<open>Line 108, right-hand side: \<^verbatim>\<open>'-' + param_list[key]\<close> needs a string.\<close>

definition dash_plus :: "pyval \<Rightarrow> error + string" where
  "dash_plus val = (case val of PStr s \<Rightarrow> Inr (''-'' @ s) | _ \<Rightarrow> Inl TypeError)"

text \<open>Line 108, assignment: \<^verbatim>\<open>command[-1] = tok\<close> needs a last element.\<close>

definition set_last :: "string list \<Rightarrow> string \<Rightarrow> error + string list" where
  "set_last command tok =
     (if command = [] then Inl IndexError else Inr (butlast command @ [tok]))"

text \<open>
  The loop over \<^verbatim>\<open>param_list.keys()\<close>. An exception leaves the command with the
  tokens appended so far.
\<close>

fun build_loop :: "string list \<Rightarrow> pydict \<Rightarrow> error option \<times> string list" where
  "build_loop command [] = (None, command)"
| "build_loop command ((key, val) # rest) =
     (let command1 = command @ param_tokens key val in
      if key = ''verbose'' then
        (case dash_plus val of
           Inl e \<Rightarrow> (Some e, command1)
         | Inr tok \<Rightarrow>
            (case set_last command1 tok of
               Inl e \<Rightarrow> (Some e, command1)
             | Inr command2 \<Rightarrow> build_loop command2 rest))
      else build_loop command1 rest)"

definition build_command :: "gear_context \<Rightarrow> error option \<times> gear_context" where
  "build_command ctx =
     (case command_line ctx of
        None \<Rightarrow> (Some KeyError, ctx)
      | Some command \<Rightarrow>
         (case param_list ctx of
            None \<Rightarrow> (Some KeyError, ctx)
          | Some params \<Rightarrow>
             (case build_loop command params of
                (r, command') \<Rightarrow> (r, ctx\<lparr>command_line := Some command'\<rparr>))))"

section \<open>\<^verbatim>\<open>run.py\<close>: the pass over the finished command\<close>

text \<open>
  \<^verbatim>\<open>generate_command\<close> gets its tokens from the gear toolkit and then rewrites every
  token that starts with \<^verbatim>\<open>--verbose\<close> (lines 169 to 174). \<^verbatim>\<open>s.startswith(p)\<close>
  compares the first \<open>length p\<close> characters; \<^verbatim>\<open>s.split("=")\<close> cuts at every
  \<^verbatim>\<open>=\<close> and keeps empty pieces, and its element 1 is missing when \<open>s\<close> has no
  \<^verbatim>\<open>=\<close>.
\<close>

definition startswith :: "string \<Rightarrow> string \<Rightarrow> bool" where
  "startswith s p = (take (length p) s = p)"

fun split_on :: "char \<Rightarrow> string \<Rightarrow> string \<Rightarrow> string list" where
  "split_on sep w [] = [w]"
| "split_on sep w (c # cs) =
     (if c = sep then w # split_on sep [] cs else split_on sep (w @ [c]) cs)"

fun verbose_pass :: "string list \<Rightarrow> error + string list" where
  "verbose_pass [] = Inr []"
| "verbose_pass (cc # rest) =
     (if startswith cc ''--verbose'' then
        (case split_on CHR ''='' [] cc of
           _ # x # _ \<Rightarrow>
             (case verbose_pass rest of
                Inl e \<Rightarrow> Inl e
              | Inr rest' \<Rightarrow> Inr ((''-'' @ x) # rest'))
         | _ \<Rightarrow> Inl IndexError)
      else
        (case verbose_pass rest of
           Inl e \<Rightarrow> Inl e
         | Inr rest' \<Rightarrow> Inr (cc # rest')))"

section \<open>Helper lemmas\<close>

subsection \<open>String forms\<close>

lemma str_nat_digit: "n < 10 \<Longrightarrow> str_nat n = [digit_char n]"
  by simp

declare str_nat.simps [simp del]

lemma str_nat_nonempty: "str_nat n \<noteq> []"
  by (subst str_nat.simps) simp

lemma py_str_empty_iff: "py_str v = [] \<longleftrightarrow> v = PStr []"
  by (cases v) (auto simp: str_int_def str_nat_nonempty)

lemmas eval_defs =
  param_tokens_def dash_plus_def set_last_def py_split_def is_space_def
  str_int_def str_nat_digit digit_char_def build_command_def

subsection \<open>The loop of \<^verbatim>\<open>build_command\<close>, one parameter at a time\<close>

lemma build_loop_append:
  "build_loop command (ps @ qs) =
     (case build_loop command ps of
        (None, c) \<Rightarrow> build_loop c qs
      | (Some e, c) \<Rightarrow> (Some e, c))"
proof (induction ps arbitrary: command)
  case Nil
  show ?case by simp
next
  case (Cons p ps)
  obtain key val where p: "p = (key, val)" by (cases p)
  show ?case
    by (simp add: p Cons.IH Let_def split: sum.splits)
qed

lemma build_loop_reach:
  "build_loop command ps = (None, c) \<Longrightarrow> build_loop command (ps @ qs) = build_loop c qs"
  by (simp add: build_loop_append)

lemma build_loop_plain:
  "key \<noteq> ''verbose'' \<Longrightarrow>
   build_loop command ((key, val) # rest) = build_loop (command @ param_tokens key val) rest"
  by (simp add: Let_def)

lemma param_tokens_verbose_str:
  "param_tokens ''verbose'' (PStr s) =
     (if s = [] then [''--verbose'']
      else if length (py_split s) > 1 then ''--verbose'' # py_split s
      else [''--verbose='' @ s])"
  by (simp add: param_tokens_def)

lemma build_loop_verbose_str:
  "build_loop command ((''verbose'', PStr s) # rest) =
     build_loop (command @ butlast (param_tokens ''verbose'' (PStr s)) @ [''-'' @ s]) rest"
  by (simp add: Let_def dash_plus_def set_last_def param_tokens_verbose_str butlast_append)

lemma build_loop_verbose_other:
  "\<forall>s. val \<noteq> PStr s \<Longrightarrow>
   build_loop command ((''verbose'', val) # rest) =
     (Some TypeError, command @ param_tokens ''verbose'' val)"
  by (cases val) (simp_all add: Let_def dash_plus_def)

text \<open>
  The loop raises nothing but \<^verbatim>\<open>TypeError\<close>, and that exactly when \<^verbatim>\<open>verbose\<close> has
  a value that is not a string: \<^verbatim>\<open>command[-1]\<close> always exists at line 108, since a
  string value of \<^verbatim>\<open>verbose\<close> has appended at least one token.
\<close>

lemma build_loop_error:
  "fst (build_loop command ps) =
     (if \<exists>v. (''verbose'', v) \<in> set ps \<and> (\<forall>s. v \<noteq> PStr s) then Some TypeError else None)"
proof (induction ps arbitrary: command)
  case Nil
  show ?case by simp
next
  case (Cons p ps)
  obtain key val where p: "p = (key, val)" by (cases p)
  show ?case
  proof (cases "key = ''verbose''")
    case False
    then show ?thesis using Cons.IH by (auto simp: p build_loop_plain)
  next
    case True
    show ?thesis
    proof (cases "\<exists>s. val = PStr s")
      case True
      then obtain s where "val = PStr s" by blast
      then show ?thesis using Cons.IH \<open>key = ''verbose''\<close>
        by (auto simp: p build_loop_verbose_str simp del: build_loop.simps)
    next
      case False
      then have "\<forall>s. val \<noteq> PStr s" by blast
      then show ?thesis using \<open>key = ''verbose''\<close>
        by (auto simp: p build_loop_verbose_other simp del: build_loop.simps)
    qed
  qed
qed

lemma build_command_run:
  "command_line ctx = Some command \<Longrightarrow> param_list ctx = Some params \<Longrightarrow>
   build_command ctx =
     (fst (build_loop command params),
      ctx\<lparr>command_line := Some (snd (build_loop command params))\<rparr>)"
  by (simp add: build_command_def split: prod.splits)

subsection \<open>What one parameter contributes\<close>

text \<open>
  The loop only ever appends to the command it is given, or overwrites a token it has
  appended itself: its effect on a command \<open>c\<close> is \<open>c\<close> followed by its effect on the
  empty command.
\<close>

lemma build_loop_frame:
  "build_loop c qs = (fst (build_loop [] qs), c @ snd (build_loop [] qs))"
proof (induction qs arbitrary: c)
  case Nil
  show ?case by simp
next
  case (Cons p qs)
  obtain key val where p: "p = (key, val)" by (cases p)
  show ?case
  proof (cases "key = ''verbose''")
    case False
    then show ?thesis
      using Cons.IH [of "c @ param_tokens key val"] Cons.IH [of "param_tokens key val"]
      by (simp add: p build_loop_plain)
  next
    case True
    show ?thesis
    proof (cases "\<exists>s. val = PStr s")
      case True
      then obtain s where s: "val = PStr s" by blast
      let ?T = "butlast (param_tokens ''verbose'' (PStr s)) @ [''-'' @ s]"
      show ?thesis
        using Cons.IH [of "c @ ?T"] Cons.IH [of ?T] \<open>key = ''verbose''\<close>
        by (simp add: p s build_loop_verbose_str del: build_loop.simps)
    next
      case False
      then have "\<forall>s. val \<noteq> PStr s" by blast
      then show ?thesis using \<open>key = ''verbose''\<close>
        by (simp add: p build_loop_verbose_other del: build_loop.simps)
    qed
  qed
qed

lemma entry_plain:
  "k \<noteq> ''verbose'' \<Longrightarrow>
   build_loop [] ((k, v) # qs) = (fst (build_loop [] qs), param_tokens k v @ snd (build_loop [] qs))"
  using build_loop_frame [of "param_tokens k v" qs] by (simp add: build_loop_plain)

lemma entry_verbose_str:
  "build_loop [] ((''verbose'', PStr s) # qs) =
     (fst (build_loop [] qs),
      butlast (param_tokens ''verbose'' (PStr s)) @ [''-'' @ s] @ snd (build_loop [] qs))"
  using build_loop_frame [of "butlast (param_tokens ''verbose'' (PStr s)) @ [''-'' @ s]" qs]
  by (simp add: build_loop_verbose_str del: build_loop.simps)

lemma build_command_at:
  assumes "command_line ctx = Some command"
    and "param_list ctx = Some (ps @ (k, v) # qs)"
    and "fst (build_loop [] ps) = None"
  shows "build_command ctx =
           (fst (build_loop [] ((k, v) # qs)),
            ctx\<lparr>command_line :=
                  Some (command @ snd (build_loop [] ps) @ snd (build_loop [] ((k, v) # qs)))\<rparr>)"
proof -
  have "build_loop command ps = (None, command @ snd (build_loop [] ps))"
    using build_loop_frame [of command ps] assms(3) by simp
  then have "build_loop command (ps @ (k, v) # qs) =
               build_loop (command @ snd (build_loop [] ps)) ((k, v) # qs)"
    by (rule build_loop_reach)
  also have "\<dots> = (fst (build_loop [] ((k, v) # qs)),
                   (command @ snd (build_loop [] ps)) @ snd (build_loop [] ((k, v) # qs)))"
    by (rule build_loop_frame)
  finally show ?thesis
    using assms(1,2) by (simp add: build_command_run)
qed

lemma param_tokens_dash:
  "param_tokens k v = [] \<or> startswith (hd (param_tokens k v)) ''-''"
  by (cases v) (simp_all add: param_tokens_def startswith_def)

lemma build_loop_first_dash:
  "snd (build_loop [] qs) = [] \<or> startswith (hd (snd (build_loop [] qs))) ''-''"
proof (induction qs)
  case Nil
  show ?case by simp
next
  case (Cons p qs)
  obtain key val where p: "p = (key, val)" by (cases p)
  show ?case
  proof (cases "key = ''verbose''")
    case False
    then show ?thesis
      using Cons.IH param_tokens_dash [of key val]
      by (cases "param_tokens key val = []")
         (simp_all add: p entry_plain hd_append del: build_loop.simps)
  next
    case True
    show ?thesis
    proof (cases "\<exists>s. val = PStr s")
      case True
      then obtain s where s: "val = PStr s" by blast
      show ?thesis
        using \<open>key = ''verbose''\<close>
        by (simp add: p s entry_verbose_str param_tokens_verbose_str startswith_def
                 del: build_loop.simps)
    next
      case False
      then have "\<forall>s. val \<noteq> PStr s" by blast
      then show ?thesis using \<open>key = ''verbose''\<close> param_tokens_dash [of key val]
        by (simp add: p build_loop_verbose_other del: build_loop.simps)
    qed
  qed
qed

lemma py_split_Nil: "py_split [] = []"
  by (simp add: py_split_def)

lemma param_tokens_not_bare:
  assumes "py_str v \<noteq> []" and "\<forall>b. v \<noteq> PBool b"
  shows "param_tokens k v \<noteq> [''--'' @ k]"
  using assms by (cases v) (auto simp: param_tokens_def)

subsection \<open>Dictionaries\<close>

lemma set_update_subset: "set (AList.update k v ps) \<subseteq> insert (k, v) (set ps)"
  by (induction ps) auto

lemma update_fresh: "k \<notin> fst ` set ps \<Longrightarrow> AList.update k v ps = ps @ [(k, v)]"
  by (induction ps) auto

lemma map_of_distinct_eq:
  "distinct (map fst ps) \<Longrightarrow> map_of ps k = Some v \<Longrightarrow> (k, v') \<in> set ps \<Longrightarrow> v' = v"
  by (metis map_of_is_SomeI option.inject)

subsection \<open>The loop of \<^verbatim>\<open>get_inputs_and_args\<close>\<close>

lemma collect_params_subset:
  "set (collect_params params cfg) \<subseteq>
     set params \<union> {(k, v). (k, v) \<in> set cfg \<and> take 5 k \<noteq> ''gear-'' \<and> v \<noteq> PStr []}"
proof (induction cfg arbitrary: params)
  case Nil
  show ?case by simp
next
  case (Cons p cfg)
  obtain key val where p: "p = (key, val)" by (cases p)
  show ?case
  proof (cases "take 5 key = ''gear-'' \<or> val = PStr []")
    case True
    then have "collect_params params (p # cfg) = collect_params params cfg"
      by (auto simp: p)
    then show ?thesis using Cons.IH [of params] by auto
  next
    case False
    then have "collect_params params (p # cfg) = collect_params (AList.update key val params) cfg"
      by (cases val) (simp_all add: p)
    then show ?thesis
      using Cons.IH [of "AList.update key val params"] set_update_subset [of key val params] False
      by (auto simp: p)
  qed
qed

text \<open>
  The configuration is a dictionary, so that no key is assigned twice and every
  assignment to \<^verbatim>\<open>params\<close> appends: the loop is a filter.
\<close>

lemma collect_params_filter:
  "distinct (map fst cfg) \<Longrightarrow> fst ` set params \<inter> fst ` set cfg = {} \<Longrightarrow>
   collect_params params cfg =
     params @ filter (\<lambda>(k, v). take 5 k \<noteq> ''gear-'' \<and> v \<noteq> PStr []) cfg"
proof (induction cfg arbitrary: params)
  case Nil
  show ?case by simp
next
  case (Cons p cfg)
  obtain key val where p: "p = (key, val)" by (cases p)
  from Cons.prems have d: "distinct (map fst cfg)" and fresh: "key \<notin> fst ` set params"
    and k: "key \<notin> fst ` set cfg" and disj: "fst ` set params \<inter> fst ` set cfg = {}"
    by (auto simp: p)
  show ?case
  proof (cases "take 5 key = ''gear-'' \<or> val = PStr []")
    case True
    then have "collect_params params (p # cfg) = collect_params params cfg"
      by (auto simp: p)
    then show ?thesis using Cons.IH [OF d disj] True by (auto simp: p)
  next
    case False
    then have "collect_params params (p # cfg) = collect_params (AList.update key val params) cfg"
      by (cases val) (simp_all add: p)
    moreover have "AList.update key val params = params @ [(key, val)]"
      using fresh by (rule update_fresh)
    moreover have "fst ` set (params @ [(key, val)]) \<inter> fst ` set cfg = {}"
      using disj k by auto
    ultimately show ?thesis
      using Cons.IH [OF d, of "params @ [(key, val)]"] False by (simp add: p)
  qed
qed

subsection \<open>The deletions of \<^verbatim>\<open>validate\<close>\<close>

lemma del_if_0_subset: "set (del_if_0 key ps) \<subseteq> set ps"
  by (auto simp: del_if_0_def AList.delete_eq split: option.splits)

lemma del_if_0_filter:
  assumes "distinct (map fst ps)"
  shows "del_if_0 key ps = filter (\<lambda>(k, v). \<not> (k = key \<and> py_eq_0 v)) ps"
proof (cases "map_of ps key")
  case None
  then have "key \<notin> fst ` set ps" by (simp add: map_of_eq_None_iff)
  then have "filter (\<lambda>(k, v). \<not> (k = key \<and> py_eq_0 v)) ps = ps"
    by (force simp: filter_id_conv)
  with None show ?thesis by (simp add: del_if_0_def)
next
  case (Some v)
  have same: "v' = v" if "(key, v') \<in> set ps" for v'
    using map_of_distinct_eq [OF assms Some that] .
  show ?thesis
  proof (cases "py_eq_0 v")
    case True
    have "filter (\<lambda>(k, v). \<not> (k = key \<and> py_eq_0 v)) ps = filter (\<lambda>(k, _). key \<noteq> k) ps"
      by (rule filter_cong) (use same True in auto)
    with Some True show ?thesis by (simp add: del_if_0_def AList.delete_eq)
  next
    case False
    have "filter (\<lambda>(k, v). \<not> (k = key \<and> py_eq_0 v)) ps = ps"
      using same False by (auto simp: filter_id_conv)
    with Some False show ?thesis by (simp add: del_if_0_def)
  qed
qed

subsection \<open>The pass of \<^verbatim>\<open>run.py\<close> on two commands\<close>

text \<open>
  The pass of \<^verbatim>\<open>generate_command\<close> turns \<^verbatim>\<open>--verbose=vvv\<close> into \<^verbatim>\<open>-vvv\<close>, and raises
  \<^verbatim>\<open>IndexError\<close> on a token that starts with \<^verbatim>\<open>--verbose\<close> and has no \<^verbatim>\<open>=\<close>.
\<close>

lemma verbose_pass_key_value:
  "verbose_pass [''mriqc'', ''--verbose=vvv'', ''--n_cpus=4''] = Inr [''mriqc'', ''-vvv'', ''--n_cpus=4'']"
  by (simp add: startswith_def)

lemma verbose_pass_no_equals:
  "verbose_pass [''mriqc'', ''--verbose-reports''] = Inl IndexError"
  by (simp add: startswith_def)

section \<open>The claims\<close>

subsection \<open>C1: the end-to-end scenario\<close>

text \<open>
  C1. With the command \<^verbatim>\<open>["mriqc", "/bids", "/out", "participant"]\<close> and the parameters
  \<^verbatim>\<open>verbose="vvv"\<close>, \<^verbatim>\<open>n_cpus=4\<close>, \<^verbatim>\<open>float=True\<close>, \<^verbatim>\<open>modality="T1w T2w"\<close>,
  \<^verbatim>\<open>fd_thres=""\<close>, inserted in this order, \<^verbatim>\<open>build_command\<close> raises nothing and leaves
  the command \<^verbatim>\<open>["mriqc", "/bids", "/out", "participant", "-vvv", "--n_cpus=4", "--float",
  "--modality", "T1w", "T2w", "--fd_thres"]\<close>, whatever the configuration holds.
\<close>

theorem build_command_end_to_end:
  "build_command
     \<lparr>config = cfg,
      command_line = Some [''mriqc'', ''/bids'', ''/out'', ''participant''],
      param_list = Some [(''verbose'', PStr ''vvv''), (''n_cpus'', PInt 4),
                         (''float'', PBool True), (''modality'', PStr ''T1w T2w''),
                         (''fd_thres'', PStr '''')]\<rparr>
   = (None,
      \<lparr>config = cfg,
       command_line = Some [''mriqc'', ''/bids'', ''/out'', ''participant'', ''-vvv'',
                            ''--n_cpus=4'', ''--float'', ''--modality'', ''T1w'', ''T2w'',
                            ''--fd_thres''],
       param_list = Some [(''verbose'', PStr ''vvv''), (''n_cpus'', PInt 4),
                          (''float'', PBool True), (''modality'', PStr ''T1w T2w''),
                          (''fd_thres'', PStr '''')]\<rparr>)"
  by (simp add: eval_defs)

subsection \<open>C2: the token of \<^verbatim>\<open>verbose\<close>\<close>

text \<open>
  C2 (as stated, refuted). With \<^verbatim>\<open>verbose="v v"\<close>, a value of the multi-token branch,
  \<^verbatim>\<open>build_command\<close> leaves \<^verbatim>\<open>["mriqc", "--verbose", "v", "-v v"]\<close>: line 108 overwrites
  only the last piece, and the token \<^verbatim>\<open>--verbose\<close> stays in the command.
\<close>

theorem verbose_multi_token_kept:
  "build_command
     \<lparr>config = [], command_line = Some [''mriqc''],
      param_list = Some [(''verbose'', PStr ''v v'')]\<rparr>
   = (None,
      \<lparr>config = [], command_line = Some [''mriqc'', ''--verbose'', ''v'', ''-v v''],
       param_list = Some [(''verbose'', PStr ''v v'')]\<rparr>)
   \<and> startswith ''--verbose'' ''--verbose''"
  by (simp add: eval_defs startswith_def)

text \<open>
  C2 (amended). When the key \<^verbatim>\<open>verbose\<close> has a string value \<open>s\<close> that splits on
  whitespace into at most one piece, and no parameter before it raises, the entry
  contributes exactly the one token \<^verbatim>\<open>-\<close>\<open>s\<close>, in place of \<^verbatim>\<open>--verbose=\<close>\<open>s\<close> (or of
  \<^verbatim>\<open>--verbose\<close> when \<open>s\<close> is empty): the command is the one it was given, the tokens
  of the parameters before, \<^verbatim>\<open>-\<close>\<open>s\<close>, and the tokens of the parameters after. That
  token starts with \<^verbatim>\<open>--verbose\<close> only when \<open>s\<close> starts with \<^verbatim>\<open>-verbose\<close>.
\<close>

theorem verbose_override:
  assumes "command_line ctx = Some command"
    and "param_list ctx = Some (ps @ (''verbose'', PStr s) # qs)"
    and "fst (build_loop [] ps) = None"
    and "length (py_split s) \<le> 1"
  shows "build_command ctx =
           (fst (build_loop [] qs),
            ctx\<lparr>command_line :=
                  Some (command @ snd (build_loop [] ps)
                        @ [''-'' @ s]
                        @ snd (build_loop [] qs))\<rparr>)
         \<and> (startswith (''-'' @ s) ''--verbose'' \<longleftrightarrow> startswith s ''-verbose'')"
proof -
  have "butlast (param_tokens ''verbose'' (PStr s)) = []"
    using assms(4) by (simp add: param_tokens_verbose_str)
  then show ?thesis
    using build_command_at [OF assms(1,2,3)]
    by (simp add: entry_verbose_str startswith_def del: build_loop.simps)
qed

theorem verbose_override_witness:
  "fst (build_loop [] [(''n_cpus'', PInt 4)]) = None
   \<and> length (py_split ''vv'') \<le> 1
   \<and> build_command
     \<lparr>config = [], command_line = Some [''mriqc''],
      param_list = Some [(''n_cpus'', PInt 4), (''verbose'', PStr ''vv''),
                         (''float'', PBool True)]\<rparr>
   = (None,
      \<lparr>config = [],
       command_line = Some [''mriqc'', ''--n_cpus=4'', ''-vv'', ''--float''],
       param_list = Some [(''n_cpus'', PInt 4), (''verbose'', PStr ''vv''),
                          (''float'', PBool True)]\<rparr>)"
  using verbose_override
          [where ctx = "\<lparr>config = [], command_line = Some [''mriqc''],
                          param_list = Some [(''n_cpus'', PInt 4), (''verbose'', PStr ''vv''),
                                             (''float'', PBool True)]\<rparr>"
             and command = "[''mriqc'']" and ps = "[(''n_cpus'', PInt 4)]" and s = "''vv''"
             and qs = "[(''float'', PBool True)]"]
  by (simp add: eval_defs)

subsection \<open>C3: no contract check\<close>

text \<open>
  C3 (as stated, refuted). With the empty string as program name and the empty string
  as a parameter key, \<^verbatim>\<open>build_command\<close> raises nothing: it leaves the command
  \<^verbatim>\<open>["", "--=x"]\<close>.
\<close>

theorem empty_names_accepted:
  "build_command
     \<lparr>config = [], command_line = Some [''''], param_list = Some [('''', PStr ''x'')]\<rparr>
   = (None,
      \<lparr>config = [], command_line = Some ['''', ''--=x''],
       param_list = Some [('''', PStr ''x'')]\<rparr>)"
  by (simp add: eval_defs)

text \<open>
  C3 (amended). \<^verbatim>\<open>build_command\<close> has no contract check, and an empty program name
  or an empty key is no error. It raises \<^verbatim>\<open>KeyError\<close> when \<^verbatim>\<open>gear_dict\<close> has no
  \<^verbatim>\<open>command_line\<close> or no \<^verbatim>\<open>param_list\<close>, \<^verbatim>\<open>TypeError\<close> when the key \<^verbatim>\<open>verbose\<close> has a
  value that is not a string, and nothing in every other case.
\<close>

theorem build_command_raises:
  "fst (build_command ctx) =
     (if command_line ctx = None \<or> param_list ctx = None then Some KeyError
      else if \<exists>v. (''verbose'', v) \<in> set (the (param_list ctx)) \<and> (\<forall>s. v \<noteq> PStr s)
        then Some TypeError
      else None)"
proof (cases "command_line ctx")
  case None
  then show ?thesis by (simp add: build_command_def)
next
  case (Some command)
  show ?thesis
  proof (cases "param_list ctx")
    case None
    then show ?thesis by (simp add: build_command_def Some)
  next
    case (Some params)
    with \<open>command_line ctx = Some command\<close> show ?thesis
      by (simp add: build_command_run build_loop_error)
  qed
qed

theorem build_command_raises_witness:
  "fst (build_command
     \<lparr>config = [], command_line = Some [''''],
      param_list = Some [('''', PBool True), (''verbose'', PInt 2)]\<rparr>) = Some TypeError
   \<and> fst (build_command
     \<lparr>config = [], command_line = Some [''''],
      param_list = Some [('''', PBool True), (''verbose'', PStr ''vv'')]\<rparr>) = None"
  using build_command_raises
          [of "\<lparr>config = [], command_line = Some [''''],
                param_list = Some [('''', PBool True), (''verbose'', PInt 2)]\<rparr>"]
        build_command_raises
          [of "\<lparr>config = [], command_line = Some [''''],
                param_list = Some [('''', PBool True), (''verbose'', PStr ''vv'')]\<rparr>"]
  by simp

subsection \<open>C4: boolean parameters\<close>

text \<open>
  C4 (as stated, refuted). With \<^verbatim>\<open>float=False\<close> and \<^verbatim>\<open>float32=True\<close> the command
  becomes \<^verbatim>\<open>["mriqc", "--float32"]\<close>, and the token \<^verbatim>\<open>--float32\<close> contains the key
  \<^verbatim>\<open>float\<close> of the false parameter.
\<close>

theorem false_key_inside_other_token:
  "build_command
     \<lparr>config = [], command_line = Some [''mriqc''],
      param_list = Some [(''float'', PBool False), (''float32'', PBool True)]\<rparr>
   = (None,
      \<lparr>config = [], command_line = Some [''mriqc'', ''--float32''],
       param_list = Some [(''float'', PBool False), (''float32'', PBool True)]\<rparr>)
   \<and> ''--float32'' = ''--'' @ ''float'' @ ''32''"
  by (simp add: eval_defs)

text \<open>
  C4 (amended). For a key \<open>k\<close> of length at least 2 other than \<^verbatim>\<open>verbose\<close> with a
  boolean value, when no parameter before it raises: a false value contributes no
  token, the tokens of the parameters after \<open>k\<close> follow directly those of the
  parameters before it; a true value contributes exactly the one token \<^verbatim>\<open>--\<close>\<open>k\<close>.
  What follows, if anything, starts with \<^verbatim>\<open>-\<close>: it is the flag of a later parameter
  and no value of \<open>k\<close>.
\<close>

theorem boolean_flag:
  assumes "command_line ctx = Some command"
    and "param_list ctx = Some (ps @ (k, PBool b) # qs)"
    and "fst (build_loop [] ps) = None"
    and "2 \<le> length k" and "k \<noteq> ''verbose''"
  shows "build_command ctx =
           (fst (build_loop [] qs),
            ctx\<lparr>command_line :=
                  Some (command @ snd (build_loop [] ps)
                        @ (if b then [''--'' @ k] else [])
                        @ snd (build_loop [] qs))\<rparr>)
         \<and> (snd (build_loop [] qs) = [] \<or> startswith (hd (snd (build_loop [] qs))) ''-'')"
proof -
  have "param_tokens k (PBool b) = (if b then [''--'' @ k] else [])"
    using assms(4) by (simp add: param_tokens_def)
  then show ?thesis
    using build_command_at [OF assms(1,2,3)] assms(5) build_loop_first_dash [of qs]
    by (simp add: entry_plain del: build_loop.simps)
qed

theorem boolean_flag_witness:
  "fst (build_loop [] [(''n_cpus'', PInt 4), (''ica'', PBool False)]) = None
   \<and> 2 \<le> length ''ica'' \<and> ''ica'' \<noteq> ''verbose''
   \<and> 2 \<le> length ''float'' \<and> ''float'' \<noteq> ''verbose''
   \<and> build_command
     \<lparr>config = [], command_line = Some [''mriqc''],
      param_list = Some [(''n_cpus'', PInt 4), (''ica'', PBool False), (''float'', PBool True),
                         (''modality'', PStr ''T1w'')]\<rparr>
   = (None,
      \<lparr>config = [],
       command_line = Some [''mriqc'', ''--n_cpus=4'', ''--float'', ''--modality=T1w''],
       param_list = Some [(''n_cpus'', PInt 4), (''ica'', PBool False), (''float'', PBool True),
                          (''modality'', PStr ''T1w'')]\<rparr>)"
  using boolean_flag
          [where ctx = "\<lparr>config = [], command_line = Some [''mriqc''],
                          param_list = Some [(''n_cpus'', PInt 4), (''ica'', PBool False),
                                             (''float'', PBool True),
                                             (''modality'', PStr ''T1w'')]\<rparr>"
             and command = "[''mriqc'']" and ps = "[(''n_cpus'', PInt 4)]" and k = "''ica''"
             and b = False and qs = "[(''float'', PBool True), (''modality'', PStr ''T1w'')]"]
        boolean_flag
          [where ctx = "\<lparr>config = [], command_line = Some [''mriqc''],
                          param_list = Some [(''n_cpus'', PInt 4), (''ica'', PBool False),
                                             (''float'', PBool True),
                                             (''modality'', PStr ''T1w'')]\<rparr>"
             and command = "[''mriqc'']" and ps = "[(''n_cpus'', PInt 4), (''ica'', PBool False)]"
             and k = "''float''" and b = True and qs = "[(''modality'', PStr ''T1w'')]"]
  by (simp add: eval_defs)

subsection \<open>C5: values of several tokens\<close>

text \<open>
  C5 (as stated, refuted). The key \<^verbatim>\<open>verbose\<close> has length 7, and its value
  \<^verbatim>\<open>"a b c"\<close> splits into three pieces, yet the command becomes
  \<^verbatim>\<open>["mriqc", "--verbose", "a", "b", "-a b c"]\<close>: the last piece is not \<^verbatim>\<open>c\<close>.
\<close>

theorem verbose_last_piece_lost:
  "build_command
     \<lparr>config = [], command_line = Some [''mriqc''],
      param_list = Some [(''verbose'', PStr ''a b c'')]\<rparr>
   = (None,
      \<lparr>config = [], command_line = Some [''mriqc'', ''--verbose'', ''a'', ''b'', ''-a b c''],
       param_list = Some [(''verbose'', PStr ''a b c'')]\<rparr>)
   \<and> py_split ''a b c'' = [''a'', ''b'', ''c'']"
  by (simp add: eval_defs)

text \<open>
  C5 (amended). For a key \<open>k\<close> of length at least 2 other than \<^verbatim>\<open>verbose\<close> whose
  value is a string that splits on whitespace into more than one piece, when no
  parameter before it raises, the entry contributes the token \<^verbatim>\<open>--\<close>\<open>k\<close> followed by
  the pieces, each a token of its own, consecutively and in order, and no token of the
  form \<^verbatim>\<open>--k=value\<close>.
\<close>

theorem multi_value_expansion:
  assumes "command_line ctx = Some command"
    and "param_list ctx = Some (ps @ (k, PStr s) # qs)"
    and "fst (build_loop [] ps) = None"
    and "2 \<le> length k" and "k \<noteq> ''verbose''"
    and "1 < length (py_split s)"
  shows "build_command ctx =
           (fst (build_loop [] qs),
            ctx\<lparr>command_line :=
                  Some (command @ snd (build_loop [] ps)
                        @ [''--'' @ k] @ py_split s
                        @ snd (build_loop [] qs))\<rparr>)"
proof -
  from assms(6) have "s \<noteq> []" by (auto simp: py_split_Nil)
  then have "param_tokens k (PStr s) = (''--'' @ k) # py_split s"
    using assms(4,6) by (simp add: param_tokens_def)
  then show ?thesis
    using build_command_at [OF assms(1,2,3)] assms(5)
    by (simp add: entry_plain del: build_loop.simps)
qed

theorem multi_value_expansion_witness:
  "fst (build_loop [] [(''float'', PBool True)]) = None
   \<and> 2 \<le> length ''modality'' \<and> ''modality'' \<noteq> ''verbose''
   \<and> 1 < length (py_split ''T1w  T2w bold'')
   \<and> build_command
     \<lparr>config = [], command_line = Some [''mriqc''],
      param_list = Some [(''float'', PBool True), (''modality'', PStr ''T1w  T2w bold''),
                         (''n_cpus'', PInt 12)]\<rparr>
   = (None,
      \<lparr>config = [],
       command_line = Some [''mriqc'', ''--float'', ''--modality'', ''T1w'', ''T2w'', ''bold'',
                            ''--n_cpus=12''],
       param_list = Some [(''float'', PBool True), (''modality'', PStr ''T1w  T2w bold''),
                          (''n_cpus'', PInt 12)]\<rparr>)"
  using multi_value_expansion
          [where ctx = "\<lparr>config = [], command_line = Some [''mriqc''],
                          param_list = Some [(''float'', PBool True),
                                             (''modality'', PStr ''T1w  T2w bold''),
                                             (''n_cpus'', PInt 12)]\<rparr>"
             and command = "[''mriqc'']" and ps = "[(''float'', PBool True)]"
             and k = "''modality''" and s = "''T1w  T2w bold''" and qs = "[(''n_cpus'', PInt 12)]"]
  by (simp add: eval_defs str_nat.simps [of 12])

subsection \<open>C6: keys of one character\<close>

text \<open>
  C6 (as stated, refuted). With \<^verbatim>\<open>verbose=True\<close> before the one-character key
  \<^verbatim>\<open>f\<close>, line 88 appends \<^verbatim>\<open>--verbose\<close> and line 108 raises \<^verbatim>\<open>TypeError\<close> on
  \<^verbatim>\<open>'-' + True\<close>: the loop never reaches \<^verbatim>\<open>f\<close>, and neither \<^verbatim>\<open>-f\<close> nor its value
  is appended.
\<close>

theorem short_flag_not_reached:
  "build_command
     \<lparr>config = [], command_line = Some [''mriqc''],
      param_list = Some [(''verbose'', PBool True), (''f'', PStr ''x'')]\<rparr>
   = (Some TypeError,
      \<lparr>config = [], command_line = Some [''mriqc'', ''--verbose''],
       param_list = Some [(''verbose'', PBool True), (''f'', PStr ''x'')]\<rparr>)
   \<and> length ''f'' = 1"
  by (simp add: eval_defs)

text \<open>
  C6 (amended). For a key \<open>k\<close> of length exactly 1, when no parameter before it raises,
  \<^verbatim>\<open>build_command\<close> appends the token \<^verbatim>\<open>-\<close>\<open>k\<close> and, when the string form of the value
  is not empty, that string form as the next token; when it is empty, \<^verbatim>\<open>-\<close>\<open>k\<close>
  alone. The command is the one given, the tokens of the parameters before \<open>k\<close>,
  these one or two tokens, and the tokens of the parameters after \<open>k\<close>.
\<close>

theorem short_flag_pairing:
  assumes "command_line ctx = Some command"
    and "param_list ctx = Some (ps @ (k, v) # qs)"
    and "fst (build_loop [] ps) = None"
    and "length k = 1"
  shows "build_command ctx =
           (fst (build_loop [] qs),
            ctx\<lparr>command_line :=
                  Some (command @ snd (build_loop [] ps)
                        @ (if py_str v = [] then [''-'' @ k] else [''-'' @ k, py_str v])
                        @ snd (build_loop [] qs))\<rparr>)"
proof -
  from assms(4) have "k \<noteq> ''verbose''" by auto
  moreover have "param_tokens k v = (if py_str v = [] then [''-'' @ k] else [''-'' @ k, py_str v])"
    using assms(4) by (simp add: param_tokens_def)
  ultimately show ?thesis
    using build_command_at [OF assms(1,2,3)] by (simp add: entry_plain del: build_loop.simps)
qed

theorem short_flag_pairing_witness:
  "fst (build_loop [] [(''n_cpus'', PInt 4), (''f'', PStr ''x'')]) = None
   \<and> length ''f'' = 1 \<and> length ''w'' = 1
   \<and> build_command
     \<lparr>config = [], command_line = Some [''mriqc''],
      param_list = Some [(''n_cpus'', PInt 4), (''f'', PStr ''x''), (''w'', PStr ''''),
                         (''float'', PBool True)]\<rparr>
   = (None,
      \<lparr>config = [],
       command_line = Some [''mriqc'', ''--n_cpus=4'', ''-f'', ''x'', ''-w'', ''--float''],
       param_list = Some [(''n_cpus'', PInt 4), (''f'', PStr ''x''), (''w'', PStr ''''),
                          (''float'', PBool True)]\<rparr>)"
  using short_flag_pairing
          [where ctx = "\<lparr>config = [], command_line = Some [''mriqc''],
                          param_list = Some [(''n_cpus'', PInt 4), (''f'', PStr ''x''),
                                             (''w'', PStr ''''), (''float'', PBool True)]\<rparr>"
             and command = "[''mriqc'']" and ps = "[(''n_cpus'', PInt 4)]" and k = "''f''"
             and v = "PStr ''x''" and qs = "[(''w'', PStr ''''), (''float'', PBool True)]"]
        short_flag_pairing
          [where ctx = "\<lparr>config = [], command_line = Some [''mriqc''],
                          param_list = Some [(''n_cpus'', PInt 4), (''f'', PStr ''x''),
                                             (''w'', PStr ''''), (''float'', PBool True)]\<rparr>"
             and command = "[''mriqc'']" and ps = "[(''n_cpus'', PInt 4), (''f'', PStr ''x'')]"
             and k = "''w''" and v = "PStr ''''" and qs = "[(''float'', PBool True)]"]
  by (simp add: eval_defs)

subsection \<open>C7: long keys with an empty or a single value\<close>

text \<open>
  C7 (as stated, refuted). The key \<^verbatim>\<open>verbose\<close> has length 7. With the empty string
  as its value the command becomes \<^verbatim>\<open>["mriqc", "-"]\<close>, not \<^verbatim>\<open>["mriqc", "--verbose"]\<close>;
  with the value \<^verbatim>\<open>"vv"\<close> it becomes \<^verbatim>\<open>["mriqc", "-vv"]\<close>, not
  \<^verbatim>\<open>["mriqc", "--verbose=vv"]\<close>.
\<close>

theorem verbose_not_long_flag:
  "build_command
     \<lparr>config = [], command_line = Some [''mriqc''], param_list = Some [(''verbose'', PStr '''')]\<rparr>
   = (None,
      \<lparr>config = [], command_line = Some [''mriqc'', ''-''],
       param_list = Some [(''verbose'', PStr '''')]\<rparr>)
   \<and> build_command
       \<lparr>config = [], command_line = Some [''mriqc''],
        param_list = Some [(''verbose'', PStr ''vv'')]\<rparr>
     = (None,
        \<lparr>config = [], command_line = Some [''mriqc'', ''-vv''],
         param_list = Some [(''verbose'', PStr ''vv'')]\<rparr>)"
  by (simp add: eval_defs)

text \<open>
  C7 (amended). For a key \<open>k\<close> of length at least 2 other than \<^verbatim>\<open>verbose\<close> whose
  value is no boolean, when no parameter before it raises: a value with an empty string
  form contributes exactly the bare token \<^verbatim>\<open>--\<close>\<open>k\<close>, and what follows, if anything,
  starts with \<^verbatim>\<open>-\<close>, the flag of a later parameter; a value with a non-empty string
  form that is no string of more than one piece contributes exactly the one token
  \<^verbatim>\<open>--\<close>\<open>k\<close>\<^verbatim>\<open>=\<close> followed by the string form.
\<close>

theorem long_flag_value:
  assumes "command_line ctx = Some command"
    and "param_list ctx = Some (ps @ (k, v) # qs)"
    and "fst (build_loop [] ps) = None"
    and "2 \<le> length k" and "k \<noteq> ''verbose''"
    and "\<forall>b. v \<noteq> PBool b"
    and "\<forall>s. v = PStr s \<longrightarrow> length (py_split s) \<le> 1"
  shows "build_command ctx =
           (fst (build_loop [] qs),
            ctx\<lparr>command_line :=
                  Some (command @ snd (build_loop [] ps)
                        @ (if py_str v = [] then [''--'' @ k] else [''--'' @ k @ ''='' @ py_str v])
                        @ snd (build_loop [] qs))\<rparr>)
         \<and> (snd (build_loop [] qs) = [] \<or> startswith (hd (snd (build_loop [] qs))) ''-'')"
proof -
  have "param_tokens k v = (if py_str v = [] then [''--'' @ k] else [''--'' @ k @ ''='' @ py_str v])"
    using assms(4,6,7) by (cases v) (auto simp: param_tokens_def)
  then show ?thesis
    using build_command_at [OF assms(1,2,3)] assms(5) build_loop_first_dash [of qs]
    by (simp add: entry_plain del: build_loop.simps)
qed

theorem long_flag_value_witness:
  "fst (build_loop [] [(''float'', PBool True), (''fd_thres'', PStr '''')]) = None
   \<and> 2 \<le> length ''fd_thres'' \<and> ''fd_thres'' \<noteq> ''verbose''
   \<and> length (py_split '''') \<le> 1
   \<and> build_command
     \<lparr>config = [], command_line = Some [''mriqc''],
      param_list = Some [(''float'', PBool True), (''fd_thres'', PStr ''''), (''n_cpus'', PInt 4),
                         (''f'', PStr ''x'')]\<rparr>
   = (None,
      \<lparr>config = [],
       command_line = Some [''mriqc'', ''--float'', ''--fd_thres'', ''--n_cpus=4'', ''-f'', ''x''],
       param_list = Some [(''float'', PBool True), (''fd_thres'', PStr ''''), (''n_cpus'', PInt 4),
                          (''f'', PStr ''x'')]\<rparr>)"
  using long_flag_value
          [where ctx = "\<lparr>config = [], command_line = Some [''mriqc''],
                          param_list = Some [(''float'', PBool True), (''fd_thres'', PStr ''''),
                                             (''n_cpus'', PInt 4), (''f'', PStr ''x'')]\<rparr>"
             and command = "[''mriqc'']" and ps = "[(''float'', PBool True)]"
             and k = "''fd_thres''" and v = "PStr ''''"
             and qs = "[(''n_cpus'', PInt 4), (''f'', PStr ''x'')]"]
        long_flag_value
          [where ctx = "\<lparr>config = [], command_line = Some [''mriqc''],
                          param_list = Some [(''float'', PBool True), (''fd_thres'', PStr ''''),
                                             (''n_cpus'', PInt 4), (''f'', PStr ''x'')]\<rparr>"
             and command = "[''mriqc'']"
             and ps = "[(''float'', PBool True), (''fd_thres'', PStr '''')]"
             and k = "''n_cpus''" and v = "PInt 4" and qs = "[(''f'', PStr ''x'')]"]
  by (simp add: eval_defs)

subsection \<open>C8: determinism\<close>

text \<open>
  C8. \<^verbatim>\<open>build_command\<close> reads two things of the context, the command and the
  parameter map: two contexts that agree on both give the same exception or none and
  the same command, whatever else they hold. It leaves the parameter map and the
  configuration as they were; what it changes is the command, to which it appends in
  place.
\<close>

theorem build_command_deterministic:
  "(command_line c1 = command_line c2 \<and> param_list c1 = param_list c2 \<longrightarrow>
      fst (build_command c1) = fst (build_command c2)
      \<and> command_line (snd (build_command c1)) = command_line (snd (build_command c2)))
   \<and> param_list (snd (build_command c1)) = param_list c1
   \<and> config (snd (build_command c1)) = config c1"
  by (auto simp: build_command_def split: option.splits prod.splits)

theorem build_command_deterministic_witness:
  "fst (build_command
          \<lparr>config = [(''gear-dry-run'', PBool True)], command_line = Some [''mriqc''],
           param_list = Some [(''n_cpus'', PInt 4)]\<rparr>)
   = fst (build_command
          \<lparr>config = [], command_line = Some [''mriqc''],
           param_list = Some [(''n_cpus'', PInt 4)]\<rparr>)
   \<and> command_line (snd (build_command
          \<lparr>config = [(''gear-dry-run'', PBool True)], command_line = Some [''mriqc''],
           param_list = Some [(''n_cpus'', PInt 4)]\<rparr>))
   = command_line (snd (build_command
          \<lparr>config = [], command_line = Some [''mriqc''],
           param_list = Some [(''n_cpus'', PInt 4)]\<rparr>))"
  using build_command_deterministic
          [of "\<lparr>config = [(''gear-dry-run'', PBool True)], command_line = Some [''mriqc''],
                param_list = Some [(''n_cpus'', PInt 4)]\<rparr>"
              "\<lparr>config = [], command_line = Some [''mriqc''],
                param_list = Some [(''n_cpus'', PInt 4)]\<rparr>"]
  by simp

subsection \<open>C9: no empty string reaches the builder\<close>

text \<open>
  C9. \<^verbatim>\<open>get_inputs_and_args\<close> stores a parameter map whose entries all come from the
  configuration, have a key whose first five characters are not \<^verbatim>\<open>gear-\<close>, and
  have a value with a non-empty string form: in particular every string value is
  non-empty. For a configuration with distinct keys the map is exactly the
  configuration without the \<^verbatim>\<open>gear-\<close> keys and without the entries whose value is the
  empty string, in the configuration's order. \<^verbatim>\<open>validate\<close> then raises nothing and only
  removes entries. So the test of line 91 of \<^verbatim>\<open>build_command\<close> fails for every entry,
  and no entry that is not a boolean gets the bare token \<^verbatim>\<open>--\<close>\<open>k\<close>.
\<close>

theorem get_inputs_and_args_nonempty:
  "\<exists>params params'.
     param_list (get_inputs_and_args ctx) = Some params
     \<and> validate (get_inputs_and_args ctx)
         = (None, (get_inputs_and_args ctx)\<lparr>param_list := Some params'\<rparr>)
     \<and> set params' \<subseteq> set params
     \<and> (\<forall>(k, v) \<in> set params.
           (k, v) \<in> set (config ctx) \<and> take 5 k \<noteq> ''gear-'' \<and> py_str v \<noteq> []
           \<and> ((\<forall>b. v \<noteq> PBool b) \<longrightarrow> param_tokens k v \<noteq> [''--'' @ k]))
     \<and> (distinct (map fst (config ctx)) \<longrightarrow>
           params = filter (\<lambda>(k, v). take 5 k \<noteq> ''gear-'' \<and> v \<noteq> PStr []) (config ctx))"
proof -
  let ?params = "collect_params [] (config ctx)"
  let ?params' = "del_if_0 ''stop-idx'' (del_if_0 ''start-idx'' ?params)"
  have 1: "param_list (get_inputs_and_args ctx) = Some ?params"
    by (simp add: get_inputs_and_args_def)
  then have v: "validate (get_inputs_and_args ctx)
                  = (None, (get_inputs_and_args ctx)\<lparr>param_list := Some ?params'\<rparr>)"
    by (simp add: validate_def)
  have sub: "set ?params' \<subseteq> set ?params"
    using del_if_0_subset [of "''stop-idx''" "del_if_0 ''start-idx'' ?params"]
          del_if_0_subset [of "''start-idx''" ?params]
    by blast
  have 2: "(k, v) \<in> set (config ctx) \<and> take 5 k \<noteq> ''gear-'' \<and> py_str v \<noteq> []
           \<and> ((\<forall>b. v \<noteq> PBool b) \<longrightarrow> param_tokens k v \<noteq> [''--'' @ k])"
    if "(k, v) \<in> set ?params" for k v
  proof -
    from that collect_params_subset [of "[]" "config ctx"]
    have a: "(k, v) \<in> set (config ctx)" and b: "take 5 k \<noteq> ''gear-''" and c: "v \<noteq> PStr []"
      by auto
    from c have "py_str v \<noteq> []" by (simp add: py_str_empty_iff)
    with a b param_tokens_not_bare [of v k] show ?thesis by blast
  qed
  have 3: "distinct (map fst (config ctx)) \<longrightarrow>
           ?params = filter (\<lambda>(k, v). take 5 k \<noteq> ''gear-'' \<and> v \<noteq> PStr []) (config ctx)"
    using collect_params_filter [of "config ctx" "[]"] by simp
  from 1 v sub 2 3 show ?thesis by blast
qed

theorem get_inputs_and_args_nonempty_witness:
  "distinct (map fst [(''gear-log-level'', PStr ''INFO''), (''verbose'', PStr ''vv''),
                (''modality'', PStr ''''), (''n_cpus'', PInt 0), (''gear-dry-run'', PBool False),
                (''float'', PBool False)])
   \<and> param_list (get_inputs_and_args
     \<lparr>config = [(''gear-log-level'', PStr ''INFO''), (''verbose'', PStr ''vv''),
                (''modality'', PStr ''''), (''n_cpus'', PInt 0), (''gear-dry-run'', PBool False),
                (''float'', PBool False)],
      command_line = None, param_list = None\<rparr>)
   = Some [(''verbose'', PStr ''vv''), (''n_cpus'', PInt 0), (''float'', PBool False)]"
  using get_inputs_and_args_nonempty
          [of "\<lparr>config = [(''gear-log-level'', PStr ''INFO''), (''verbose'', PStr ''vv''),
                (''modality'', PStr ''''), (''n_cpus'', PInt 0), (''gear-dry-run'', PBool False),
                (''float'', PBool False)],
                command_line = None, param_list = None\<rparr>"]
  by (simp add: get_inputs_and_args_def)

subsection \<open>C10: what \<^verbatim>\<open>validate\<close> removes\<close>

text \<open>
  C10. On a parameter map, a dictionary, \<^verbatim>\<open>validate\<close> raises nothing and removes
  exactly the entries of the keys \<^verbatim>\<open>start-idx\<close> and \<^verbatim>\<open>stop-idx\<close> whose value equals 0,
  with Python's equality (under which \<^verbatim>\<open>False == 0\<close>); every other entry stays, with
  its value and in its place. A map with neither key is left as it is, and so is the
  rest of the context.
\<close>

theorem validate_frame:
  assumes "param_list ctx = Some params" and "distinct (map fst params)"
  shows "validate ctx =
           (None,
            ctx\<lparr>param_list :=
                  Some (filter (\<lambda>(k, v). \<not> ((k = ''start-idx'' \<or> k = ''stop-idx'') \<and> py_eq_0 v))
                          params)\<rparr>)
         \<and> (''start-idx'' \<notin> fst ` set params \<and> ''stop-idx'' \<notin> fst ` set params
              \<longrightarrow> validate ctx = (None, ctx))"
proof -
  let ?P1 = "\<lambda>(k, v). \<not> (k = ''start-idx'' \<and> py_eq_0 v)"
  let ?P2 = "\<lambda>(k, v). \<not> (k = ''stop-idx'' \<and> py_eq_0 v)"
  let ?P = "\<lambda>(k, v). \<not> ((k = ''start-idx'' \<or> k = ''stop-idx'') \<and> py_eq_0 v)"
  have "distinct (map fst (filter ?P1 params))"
    using assms(2) by (rule distinct_map_filter)
  then have "del_if_0 ''stop-idx'' (del_if_0 ''start-idx'' params) = filter ?P2 (filter ?P1 params)"
    using assms(2) by (simp add: del_if_0_filter)
  also have "\<dots> = filter ?P params"
    by (auto intro: filter_cong)
  finally have eq: "del_if_0 ''stop-idx'' (del_if_0 ''start-idx'' params) = filter ?P params" .
  have first: "validate ctx = (None, ctx\<lparr>param_list := Some (filter ?P params)\<rparr>)"
    using assms(1) eq by (simp add: validate_def)
  have second: "validate ctx = (None, ctx)"
    if "''start-idx'' \<notin> fst ` set params \<and> ''stop-idx'' \<notin> fst ` set params"
  proof -
    from that have "filter ?P params = params"
      by (force simp: filter_id_conv)
    moreover have "ctx\<lparr>param_list := Some params\<rparr> = ctx"
      using assms(1) by simp
    ultimately show ?thesis using first by simp
  qed
  from first second show ?thesis by blast
qed

theorem validate_frame_witness:
  "distinct (map fst [(''start-idx'', PInt 0), (''n_cpus'', PInt 0), (''stop-idx'', PInt 5)])
   \<and> validate
     \<lparr>config = [], command_line = None,
      param_list = Some [(''start-idx'', PInt 0), (''n_cpus'', PInt 0), (''stop-idx'', PInt 5)]\<rparr>
   = (None,
      \<lparr>config = [], command_line = None,
       param_list = Some [(''n_cpus'', PInt 0), (''stop-idx'', PInt 5)]\<rparr>)
   \<and> validate
        \<lparr>config = [], command_line = None, param_list = Some [(''n_cpus'', PInt 0)]\<rparr>
      = (None, \<lparr>config = [], command_line = None, param_list = Some [(''n_cpus'', PInt 0)]\<rparr>)"
  using validate_frame
          [of "\<lparr>config = [], command_line = None,
                param_list = Some [(''start-idx'', PInt 0), (''n_cpus'', PInt 0),
                                   (''stop-idx'', PInt 5)]\<rparr>"
              "[(''start-idx'', PInt 0), (''n_cpus'', PInt 0), (''stop-idx'', PInt 5)]"]
        validate_frame
          [of "\<lparr>config = [], command_line = None, param_list = Some [(''n_cpus'', PInt 0)]\<rparr>"
              "[(''n_cpus'', PInt 0)]"]
  by simp

end
